theory Spec2Isabelle
  imports Main "HOL-Library.AList"
begin

section \<open>The session orchestrator of the dev-server backend\<close>

text \<open>
  The backend is one Express application with an in-memory table \<open>activeSessions\<close>
  (a JavaScript \<open>Map\<close>) and three route handlers: \<open>POST /api/dev-server\<close>,
  \<open>GET /api/dev-server\<close> and \<open>DELETE /api/dev-server/:sessionId\<close>. The repository holds
  two variants of the file: the one that clones the repository on the host
  (\<open>backend/index.js\<close>) and the one that lets the container clone it and adds a
  readiness probe. Both are embedded here; a \<open>variant\<close> selects between them where they
  differ.

  Handlers are \<open>async\<close>: the code between two \<open>await\<close>s runs without interruption, and
  at an \<open>await\<close> other handlers may run. Each handler is therefore embedded as its
  segments: a segment takes the table, returns the table, and ends in a reply, in a
  pending external call together with the continuation that consumes its outcome, or
  in an uncaught exception. Outcomes of external calls (the network stack, git, the
  container engine, the file system, the id generator) are supplied by an environment
  record.
\<close>

subsection \<open>Data\<close>

type_synonym sid = string
type_synonym cid = string

datatype status = Cloning | Starting | Running

text \<open>
  A session object as \<open>activeSessions.set\<close> stores it. \<open>containerId\<close> is \<open>null\<close> until the
  container has started; \<open>sessionDir\<close> is present in the host-clone variant only.
\<close>

record session =
  sessionId :: sid
  repoUrl :: string
  port :: nat
  status :: status
  containerId :: "cid option"
  sessionDir :: "string option"

text \<open>
  A JavaScript \<open>Map\<close> keeps its keys in insertion order, and \<open>find\<close> over
  \<open>Array.from(activeSessions.keys())\<close> depends on that order, so the table is an
  association list. \<open>Map.set\<close> replaces the value of a present key in place and appends
  a new key at the end; \<open>Map.delete\<close> removes the key.
\<close>

type_synonym registry = "(sid \<times> session) list"

definition Map_get :: "registry \<Rightarrow> sid \<Rightarrow> session option" where
  "Map_get reg k = map_of reg k"

definition Map_set :: "sid \<Rightarrow> session \<Rightarrow> registry \<Rightarrow> registry" where
  "Map_set k s reg = AList.update k s reg"

definition Map_delete :: "sid \<Rightarrow> registry \<Rightarrow> registry" where
  "Map_delete k reg = AList.delete k reg"

definition Map_keys :: "registry \<Rightarrow> sid list" where
  "Map_keys reg = map fst reg"

definition Map_values :: "registry \<Rightarrow> session list" where
  "Map_values reg = map snd reg"

text \<open>JavaScript truthiness of a value that is a string, \<open>null\<close> or \<open>undefined\<close>.\<close>

definition truthy :: "string option \<Rightarrow> bool" where
  "truthy x = (case x of None \<Rightarrow> False | Some s \<Rightarrow> s \<noteq> [])"

text \<open>The summaries the handlers send back.\<close>

record summary =
  sum_sessionId :: sid
  sum_repoUrl :: string
  sum_port :: nat
  sum_status :: status
  sum_containerId :: "cid option"

text \<open>
  The reply to a successful creation. The field \<open>url\<close> is the template literal
  \<open>http://localhost:${port}\<close>, kept as its fixed part and the interpolated port.
\<close>

record created =
  cr_sessionId :: sid
  cr_repoUrl :: string
  cr_port :: nat
  cr_status :: status
  cr_url :: "string \<times> nat"

datatype body =
    Error string
  | Message string
  | Created created
  | Sessions "summary list"

datatype response = Response nat body

text \<open>The container specification passed to \<open>docker.createContainer\<close>.\<close>

record container_config =
  Image :: string
  name :: string
  HostPort :: nat
  Binds :: "string list"
  AutoRemove :: bool
  Env :: "string list"
  WorkingDir :: string
  Entrypoint :: "string list option"

subsection \<open>External calls and their outcomes\<close>

text \<open>
  What \<open>server.listen(p, callback)\<close> of a \<open>net.Server\<close> leads to. The server binds and
  emits \<open>listening\<close>, and the callback runs without an error; \<open>server.address().port\<close>
  is then the port bound. Or the bind fails. The code reads the failure from the
  callback's argument \<open>err\<close>. Node registers the callback for the \<open>listening\<close> event
  only and reports a failed bind by an \<open>error\<close> event on the server; the code registers
  no listener for it, so the event is an uncaught exception. Both ways of reporting
  the failure are outcomes here, so that every branch of the code is embedded.
\<close>

datatype listen_outcome =
    Listening nat
  | CallbackError string
  | ErrorEvent string

text \<open>
  The promise \<open>findAvailablePort\<close> returns: resolved with a port, rejected with an
  error, or never settled because an exception was thrown outside of it.
\<close>

datatype port_result = Resolved nat | Rejected string | Uncaught string

text \<open>
  Any other external call either fails with an error, modelled by its message, or
  succeeds; the fields of the environment are the outcome of the call the resumed
  handler is waiting for. \<open>uuidv4\<close> is the id the generator returns, and \<open>REPOS_DIR\<close>
  the directory \<open>path.join(__dirname, '..', 'repos')\<close>.
\<close>

record env =
  uuidv4 :: sid
  REPOS_DIR :: string
  listen :: "nat \<Rightarrow> listen_outcome"
  git_clone :: "string + unit"
  createContainer :: "string + cid"
  container_start :: "string + unit"
  container_stop :: "string + unit"
  fs_rmdir :: "string + unit"

datatype call =
    FindAvailablePort nat
  | GitClone string string
  | CreateContainer container_config
  | ContainerStart cid
  | ContainerStop cid
  | Rmdir "string option"

text \<open>
  The continuations, with the variables their closures hold. \<open>AfterPort\<close> to
  \<open>AfterCleanup\<close> belong to the creation handler, \<open>AfterStop\<close> and \<open>AfterRmdir\<close> to the
  deletion handler.
\<close>

datatype kont =
    AfterPort sid string
  | AfterClone sid string nat
  | AfterCreate sid string nat
  | AfterStart sid string nat cid
  | AfterCleanup string
  | AfterStop sid "string option"
  | AfterRmdir sid

text \<open>
  How a segment ends: waiting for a call, with a reply, or with an uncaught exception,
  on which the process exits.
\<close>

datatype "next" = Await call kont | Reply response | Exit string

text \<open>A readiness probe armed by \<open>setTimeout\<close>: session id, port and container.\<close>

datatype timer = Armed sid nat cid | Fired

definition path_join :: "string \<Rightarrow> string \<Rightarrow> string" where
  "path_join d f = d @ ''/'' @ f"

text \<open>
  The message of the \<open>TypeError\<close> thrown when a property is set on \<open>undefined\<close>.
\<close>

definition type_error :: "string \<Rightarrow> string" where
  "type_error prop =
     ''Cannot set properties of undefined (setting '' @ [CHR 0x27] @ prop @ [CHR 0x27] @ '')''"

subsection \<open>The port allocator\<close>

text \<open>
  \<open>findAvailablePort(startPort)\<close>: listen on \<open>startPort\<close>; if the callback receives an
  error, listen on port 0; if that callback receives an error too, reject with it;
  otherwise resolve with the port of the server's address. An \<open>error\<close> event of either
  \<open>listen\<close> reaches no listener.
\<close>

definition findAvailablePort :: "(nat \<Rightarrow> listen_outcome) \<Rightarrow> nat \<Rightarrow> port_result" where
  "findAvailablePort lsn startPort =
     (case lsn startPort of
        CallbackError err \<Rightarrow>
          (case lsn 0 of
             CallbackError err' \<Rightarrow> Rejected err'
           | Listening p \<Rightarrow> Resolved p
           | ErrorEvent ex \<Rightarrow> Uncaught ex)
      | Listening p \<Rightarrow> Resolved p
      | ErrorEvent ex \<Rightarrow> Uncaught ex)"

subsection \<open>The creation handler\<close>

datatype variant = HostClone | ContainerClone

definition openVSCodeImage :: "variant \<Rightarrow> string" where
  "openVSCodeImage v =
     (case v of HostClone \<Rightarrow> ''gitpod/openvscode-server:latest''
      | ContainerClone \<Rightarrow> ''gitpod/openvscode-server:1.86.2'')"

definition containerConfig :: "variant \<Rightarrow> env \<Rightarrow> sid \<Rightarrow> string \<Rightarrow> nat \<Rightarrow> container_config" where
  \<open>containerConfig v e sId url p =
     (case v of
        HostClone \<Rightarrow>
          \<lparr>Image = openVSCodeImage v, name = ''openvscode-'' @ sId, HostPort = p,
           Binds = [path_join (REPOS_DIR e) sId @ '':/home/workspace:rw''],
           AutoRemove = True,
           Env = [''OPENVSCODE_SERVER_ROOT=/home/workspace'',
                  ''OPENVSCODE_DISABLE_WELCOME_PAGE=true''],
           WorkingDir = ''/home/workspace'', Entrypoint = None\<rparr>
      | ContainerClone \<Rightarrow>
          \<lparr>Image = openVSCodeImage v, name = ''openvscode-'' @ sId, HostPort = p,
           Binds = [], AutoRemove = False,
           Env = [''REPO_URL='' @ url, ''OPENVSCODE_SERVER_ROOT=/home/workspace'',
                  ''OPENVSCODE_DISABLE_WELCOME_PAGE=true''],
           WorkingDir = ''/home/workspace'',
           Entrypoint = Some [''/bin/sh'', ''-c'',
             ''git clone "$REPO_URL" /home/workspace && /openvscode-server/bin/openvscode-server --host 0.0.0.0 --port 3000'']\<rparr>)\<close>

text \<open>
  The predicate of the \<open>find\<close> in the \<open>catch\<close> block:
  \<open>activeSessions.get(id)?.repoUrl === req.body.repoUrl &&
   activeSessions.get(id)?.status !== 'running'\<close>.
\<close>

definition cleanup_match :: "registry \<Rightarrow> string \<Rightarrow> sid \<Rightarrow> bool" where
  "cleanup_match reg url k =
     (case Map_get reg k of
        None \<Rightarrow> False
      | Some s \<Rightarrow> repoUrl s = url \<and> status s \<noteq> Running)"

definition create_failed :: "string \<Rightarrow> response" where
  "create_failed msg = Response 500 (Error (''Failed to create dev server: '' @ msg))"

text \<open>
  The \<open>catch\<close> block of the creation handler. \<open>sessionId\<close> of the \<open>try\<close> block is not in
  scope here: the block looks a session up by the request's \<open>repoUrl\<close>, deletes it from
  the table and removes its directory (errors of \<open>fs.rmdir\<close> are logged only), then
  replies 500.
\<close>

definition catch_block :: "env \<Rightarrow> string \<Rightarrow> string option \<Rightarrow> registry \<Rightarrow> registry \<times> timer list \<times> next" where
  "catch_block e msg body_repoUrl reg =
     (if truthy body_repoUrl then
        (case find (cleanup_match reg (the body_repoUrl)) (Map_keys reg) of
           None \<Rightarrow> (reg, [], Reply (create_failed msg))
         | Some sId \<Rightarrow>
             if truthy (Some sId) then
               (Map_delete sId reg, [],
                Await (Rmdir (Some (path_join (REPOS_DIR e) sId))) (AfterCleanup msg))
             else (reg, [], Reply (create_failed msg)))
      else (reg, [], Reply (create_failed msg)))"

text \<open>The first segment: validation, the id, and the call of the port allocator.\<close>

definition post_request :: "env \<Rightarrow> string option \<Rightarrow> registry \<Rightarrow> registry \<times> timer list \<times> next" where
  "post_request e body_repoUrl reg =
     (if \<not> truthy body_repoUrl then
        (reg, [], Reply (Response 400 (Error ''Repository URL is required'')))
      else
        (reg, [], Await (FindAvailablePort 8080) (AfterPort (uuidv4 e) (the body_repoUrl))))"

subsection \<open>The deletion and list handlers\<close>

definition delete_request :: "sid \<Rightarrow> registry \<Rightarrow> registry \<times> timer list \<times> next" where
  "delete_request sId reg =
     (case Map_get reg sId of
        None \<Rightarrow> (reg, [], Reply (Response 404 (Error ''Session not found'')))
      | Some session \<Rightarrow>
          if truthy (containerId session) then
            (reg, [], Await (ContainerStop (the (containerId session)))
                        (AfterStop sId (sessionDir session)))
          else
            (reg, [], Await (Rmdir (sessionDir session)) (AfterRmdir sId)))"

definition summarise :: "session \<Rightarrow> summary" where
  "summarise s =
     \<lparr>sum_sessionId = sessionId s, sum_repoUrl = repoUrl s, sum_port = port s,
      sum_status = status s, sum_containerId = containerId s\<rparr>"

definition list_request :: "registry \<Rightarrow> registry \<times> timer list \<times> next" where
  "list_request reg = (reg, [], Reply (Response 200 (Sessions (map summarise (Map_values reg)))))"

subsection \<open>Resuming a handler\<close>

text \<open>
  Each equation is the code from one \<open>await\<close> to the next. A rejected promise and a
  \<open>TypeError\<close> (a property of \<open>activeSessions.get(sessionId)\<close> set when the entry is
  gone) both enter the \<open>catch\<close> block. In the container-clone variant the probe is armed
  by \<open>setTimeout\<close> right after \<open>container.start()\<close> returns, before the table is read.
\<close>

fun resume :: "variant \<Rightarrow> env \<Rightarrow> kont \<Rightarrow> registry \<Rightarrow> registry \<times> timer list \<times> next" where
  "resume v e (AfterPort sId url) reg =
     (case findAvailablePort (listen e) 8080 of
        Uncaught ex \<Rightarrow> (reg, [], Exit ex)
      | Rejected err \<Rightarrow> catch_block e err (Some url) reg
      | Resolved p \<Rightarrow>
          (case v of
             HostClone \<Rightarrow>
               (Map_set sId
                  \<lparr>sessionId = sId, repoUrl = url, port = p, status = Cloning,
                   containerId = None,
                   sessionDir = Some (path_join (REPOS_DIR e) sId)\<rparr> reg, [],
                Await (GitClone url (path_join (REPOS_DIR e) sId))
                  (AfterClone sId url p))
           | ContainerClone \<Rightarrow>
               (Map_set sId
                  \<lparr>sessionId = sId, repoUrl = url, port = p, status = Starting,
                   containerId = None, sessionDir = None\<rparr> reg, [],
                Await (CreateContainer (containerConfig v e sId url p))
                  (AfterCreate sId url p))))"
| "resume v e (AfterClone sId url p) reg =
     (case git_clone e of
        Inl err \<Rightarrow> catch_block e err (Some url) reg
      | Inr _ \<Rightarrow>
          (case Map_get reg sId of
             None \<Rightarrow> catch_block e (type_error ''status'') (Some url) reg
           | Some s \<Rightarrow>
               (Map_set sId (s\<lparr>status := Starting\<rparr>) reg, [],
                Await (CreateContainer (containerConfig v e sId url p))
                  (AfterCreate sId url p))))"
| "resume v e (AfterCreate sId url p) reg =
     (case createContainer e of
        Inl err \<Rightarrow> catch_block e err (Some url) reg
      | Inr container \<Rightarrow>
          (reg, [], Await (ContainerStart container) (AfterStart sId url p container)))"
| "resume v e (AfterStart sId url p container) reg =
     (case container_start e of
        Inl err \<Rightarrow> catch_block e err (Some url) reg
      | Inr _ \<Rightarrow>
          (let armed = (case v of HostClone \<Rightarrow> []
                        | ContainerClone \<Rightarrow> [Armed sId p container])
           in case Map_get reg sId of
                None \<Rightarrow>
                  (case catch_block e (type_error ''containerId'') (Some url) reg of
                     (reg', _, nx) \<Rightarrow> (reg', armed, nx))
              | Some s \<Rightarrow>
                  (Map_set sId (s\<lparr>containerId := Some container, status := Running\<rparr>) reg,
                   armed,
                   Reply (Response 200 (Created
                     \<lparr>cr_sessionId = sId, cr_repoUrl = url, cr_port = p,
                      cr_status = Running, cr_url = (''http://localhost:'', p)\<rparr>)))))"
| "resume v e (AfterCleanup msg) reg = (reg, [], Reply (create_failed msg))"
| "resume v e (AfterStop sId dir) reg =
     (reg, [], Await (Rmdir dir) (AfterRmdir sId))"
| "resume v e (AfterRmdir sId) reg =
     (Map_delete sId reg, [],
      Reply (Response 200 (Message ''Dev server stopped and cleaned up successfully'')))"

subsection \<open>The readiness probe\<close>

text \<open>
  The callback of \<open>setTimeout(..., 2000)\<close> in the container-clone variant. It inspects the
  container; if the container is not running it fetches and logs its output; otherwise
  it polls the port. The callback writes to the console only; its events are collected
  in a list.

  The poll: \<open>check\<close> sends a request with \<open>http.get\<close>, passing a response callback and
  registering \<open>retry\<close> as the listener of the request's \<open>error\<close> event. The two are
  independent: a request may be answered, may fail, may be answered and fail later
  (the body is never read and the connection may be reset), or may stay without an
  answer. The response callback logs when the status is 200 and calls \<open>retry\<close>
  otherwise. \<open>retry\<close> increments the shared counter \<open>attempts\<close> and either schedules
  \<open>check\<close> with \<open>setTimeout(check, 1000)\<close> or logs that the server did not respond.
  Several requests and timers may be pending at once; the order in which timers fire
  and events arrive is given by a list of deliveries.
\<close>

datatype http_event = ResponseEvent nat | ErrorRaised

datatype http_outcome = Answered nat | Failed | AnsweredThenFailed nat | Silent

fun events_of :: "http_outcome \<Rightarrow> http_event list" where
  "events_of (Answered c) = [ResponseEvent c]"
| "events_of Failed = [ErrorRaised]"
| "events_of (AnsweredThenFailed c) = [ResponseEvent c, ErrorRaised]"
| "events_of Silent = []"

datatype delivery = TimerDue | Deliver nat

record probe_env =
  inspect :: "string + string"
  container_logs :: "string + string"
  http_get :: "nat \<Rightarrow> http_outcome"
  deliveries :: "delivery list"

datatype probe_event =
    Inspect cid
  | FetchLogs cid
  | HttpGet nat
  | SetTimeout nat
  | LogExited sid string
  | LogResponding sid nat
  | LogNoResponse sid nat nat
  | LogProbeError string

text \<open>
  The state of a poll: the counter \<open>attempts\<close>, the number of \<open>setTimeout(check, 1000)\<close>
  callbacks not yet run, for each request sent the events it has still to deliver, and
  what has been done so far.
\<close>

record poll =
  attempts :: nat
  due :: nat
  in_flight :: "http_event list list"
  trace :: "probe_event list"

definition maxAttempts :: nat where
  "maxAttempts = 10"

definition retry :: "sid \<Rightarrow> nat \<Rightarrow> poll \<Rightarrow> poll" where
  "retry sId p st =
     (let st' = st\<lparr>attempts := attempts st + 1\<rparr>
      in if attempts st' < maxAttempts then
           st'\<lparr>due := due st' + 1, trace := trace st' @ [SetTimeout 1000]\<rparr>
         else st'\<lparr>trace := trace st' @ [LogNoResponse sId p maxAttempts]\<rparr>)"

definition check :: "(nat \<Rightarrow> http_outcome) \<Rightarrow> nat \<Rightarrow> poll \<Rightarrow> poll" where
  "check get p st =
     st\<lparr>in_flight := in_flight st @ [events_of (get (length (in_flight st)))],
        trace := trace st @ [HttpGet p]\<rparr>"

definition on_response :: "sid \<Rightarrow> nat \<Rightarrow> nat \<Rightarrow> poll \<Rightarrow> poll" where
  "on_response sId p statusCode st =
     (if statusCode = 200 then st\<lparr>trace := trace st @ [LogResponding sId p]\<rparr>
      else retry sId p st)"

fun deliver :: "(nat \<Rightarrow> http_outcome) \<Rightarrow> sid \<Rightarrow> nat \<Rightarrow> delivery \<Rightarrow> poll \<Rightarrow> poll" where
  "deliver get sId p TimerDue st =
     (if 0 < due st then check get p (st\<lparr>due := due st - 1\<rparr>) else st)"
| "deliver get sId p (Deliver i) st =
     (if i < length (in_flight st) then
        (case in_flight st ! i of
           [] \<Rightarrow> st
         | ResponseEvent c # evs \<Rightarrow>
             on_response sId p c (st\<lparr>in_flight := (in_flight st)[i := evs]\<rparr>)
         | ErrorRaised # evs \<Rightarrow>
             retry sId p (st\<lparr>in_flight := (in_flight st)[i := evs]\<rparr>))
      else st)"

text \<open>The poll starts with \<open>attempts = 0\<close> and a direct call of \<open>check\<close>.\<close>

definition run_poll :: "(nat \<Rightarrow> http_outcome) \<Rightarrow> sid \<Rightarrow> nat \<Rightarrow> delivery list \<Rightarrow> poll" where
  "run_poll get sId p ds =
     foldl (\<lambda>st d. deliver get sId p d st)
       (check get p \<lparr>attempts = 0, due = 0, in_flight = [], trace = []\<rparr>) ds"

fun probe :: "probe_env \<Rightarrow> timer \<Rightarrow> probe_event list" where
  "probe pe (Armed sId p container) =
     Inspect container #
     (case inspect pe of
        Inl err \<Rightarrow> [LogProbeError err]
      | Inr st \<Rightarrow>
          if st \<noteq> ''running'' then
            FetchLogs container #
            (case container_logs pe of
               Inl err \<Rightarrow> [LogProbeError err]
             | Inr logStr \<Rightarrow> [LogExited sId logStr])
          else trace (run_poll (http_get pe) sId p (deliveries pe)))"
| "probe pe Fired = []"

subsection \<open>The server: requests in flight\<close>

text \<open>
  The state of the process: the table, one slot per request received (the pending call
  and continuation of a handler that is waiting, or the reply it has sent), the probes
  armed, and the console lines of the probes. An action is the arrival of a request,
  the completion of the call a waiting handler awaits, or the firing of a probe; a
  schedule is a list of actions. Resuming a slot that has replied, or a slot or timer
  that does not exist, does nothing. When a segment ends with an uncaught exception the
  process exits: its request is dropped, and no later action does anything.
\<close>

datatype slot = Pending call kont | Finished response | Dropped

record system =
  sessions :: registry
  slots :: "slot list"
  timers :: "timer list"
  console :: "probe_event list"
  alive :: bool

datatype request = Post "string option" | Delete sid | GetList

datatype action = Arrive request env | Resume nat env | Fire nat probe_env

definition handle :: "env \<Rightarrow> request \<Rightarrow> registry \<Rightarrow> registry \<times> timer list \<times> next" where
  "handle e r reg =
     (case r of
        Post body_repoUrl \<Rightarrow> post_request e body_repoUrl reg
      | Delete sId \<Rightarrow> delete_request sId reg
      | GetList \<Rightarrow> list_request reg)"

definition slot_of :: "next \<Rightarrow> slot" where
  "slot_of nx =
     (case nx of Await c k \<Rightarrow> Pending c k | Reply r \<Rightarrow> Finished r | Exit ex \<Rightarrow> Dropped)"

definition survives :: "next \<Rightarrow> bool" where
  "survives nx = (case nx of Await c k \<Rightarrow> True | Reply r \<Rightarrow> True | Exit ex \<Rightarrow> False)"

fun step :: "variant \<Rightarrow> action \<Rightarrow> system \<Rightarrow> system" where
  "step v (Arrive r e) s =
     (case handle e r (sessions s) of
        (reg', armed, nx) \<Rightarrow>
          s\<lparr>sessions := reg', slots := slots s @ [slot_of nx], timers := timers s @ armed,
            alive := survives nx\<rparr>)"
| "step v (Resume i e) s =
     (if i < length (slots s) then
        (case slots s ! i of
           Pending c k \<Rightarrow>
             (case resume v e k (sessions s) of
                (reg', armed, nx) \<Rightarrow>
                  s\<lparr>sessions := reg', slots := (slots s)[i := slot_of nx],
                    timers := timers s @ armed, alive := survives nx\<rparr>)
         | Finished r \<Rightarrow> s
         | Dropped \<Rightarrow> s)
      else s)"
| "step v (Fire i pe) s =
     (if i < length (timers s) then
        s\<lparr>timers := (timers s)[i := Fired],
          console := console s @ probe pe (timers s ! i)\<rparr>
      else s)"

definition exec :: "variant \<Rightarrow> action \<Rightarrow> system \<Rightarrow> system" where
  "exec v a s = (if alive s then step v a s else s)"

definition run :: "variant \<Rightarrow> action list \<Rightarrow> system \<Rightarrow> system" where
  "run v acts s = foldl (\<lambda>s a. exec v a s) s acts"

definition init :: system where
  "init = \<lparr>sessions = [], slots = [], timers = [], console = [], alive = True\<rparr>"

subsection \<open>Example environments\<close>

text \<open>
  An environment in which every external call succeeds: the preferred port can be
  bound, port 0 yields 49152, and the engine names the container after the session.
  Failures are obtained from it by record update. When port 8080 is in use, the bind
  fails with \<open>EADDRINUSE\<close>: \<open>port_in_use\<close> reports it by the \<open>error\<close> event, as Node does,
  \<open>in_use_by_callback\<close> and \<open>no_port_by_callback\<close> by the callback's argument, as the
  code expects.
\<close>

definition env_ok :: "sid \<Rightarrow> env" where
  "env_ok u =
     \<lparr>uuidv4 = u, REPOS_DIR = ''/app/repos'',
      listen = (\<lambda>p. Listening (if p = 0 then 49152 else p)),
      git_clone = Inr (), createContainer = Inr (''c-'' @ u),
      container_start = Inr (), container_stop = Inr (), fs_rmdir = Inr ()\<rparr>"

definition port_in_use :: "nat \<Rightarrow> listen_outcome" where
  "port_in_use p = (if p = 8080 then ErrorEvent ''EADDRINUSE'' else Listening 49152)"

definition in_use_by_callback :: "nat \<Rightarrow> listen_outcome" where
  "in_use_by_callback p = (if p = 8080 then CallbackError ''EADDRINUSE'' else Listening 49152)"

definition no_port_by_callback :: "nat \<Rightarrow> listen_outcome" where
  "no_port_by_callback p = (if p = 0 then CallbackError ''EMFILE'' else CallbackError ''EADDRINUSE'')"

subsection \<open>Notions used in the statements\<close>

text \<open>
  The \<open>repoUrl\<close> of the request a continuation of the creation handler belongs to
  (\<open>req.body.repoUrl\<close> in its \<open>catch\<close> block); the other continuations have none.
\<close>

fun request_url :: "kont \<Rightarrow> string option" where
  "request_url (AfterPort sId url) = Some url"
| "request_url (AfterClone sId url p) = Some url"
| "request_url (AfterCreate sId url p) = Some url"
| "request_url (AfterStart sId url p container) = Some url"
| "request_url (AfterCleanup msg) = None"
| "request_url (AfterStop sId dir) = None"
| "request_url (AfterRmdir sId) = None"

text \<open>
  A segment has failed when it ends in the reply 500 or in the \<open>fs.rmdir\<close> of the
  \<open>catch\<close> block, after which 500 is replied.
\<close>

fun failing :: "next \<Rightarrow> bool" where
  "failing (Reply (Response c b)) = (c = 500)"
| "failing (Await c (AfterCleanup msg)) = True"
| "failing (Await c k) = False"
| "failing (Exit ex) = False"

text \<open>
  Two creation requests for the same repository, the second arriving while the first
  waits for the container engine; the engine then fails the second one.
\<close>

definition same_repo_second_fails :: "action list" where
  "same_repo_second_fails =
     [Arrive (Post (Some ''X'')) (env_ok ''s1''), Resume 0 (env_ok ''s1''),
      Arrive (Post (Some ''X'')) (env_ok ''s2''), Resume 1 (env_ok ''s2''),
      Resume 1 ((env_ok ''s2'')\<lparr>createContainer := Inl ''boom''\<rparr>),
      Resume 1 (env_ok ''s2'')]"

text \<open>
  A table with a running session and two sessions still starting, all for the same
  repository.
\<close>

definition reg3 :: registry where
  "reg3 = [(''s0'', \<lparr>sessionId = ''s0'', repoUrl = ''X'', port = 8080, status = Running,
              containerId = Some ''c-s0'', sessionDir = None\<rparr>),
           (''s1'', \<lparr>sessionId = ''s1'', repoUrl = ''X'', port = 49152, status = Starting,
              containerId = None, sessionDir = None\<rparr>),
           (''s2'', \<lparr>sessionId = ''s2'', repoUrl = ''X'', port = 49153, status = Starting,
              containerId = None, sessionDir = None\<rparr>)]"


text \<open>
  Two creation requests, the second arriving while the first waits for its clone or
  its container: nothing is bound to port 8080 when the second probe runs, so both
  probes succeed on it.
\<close>

definition both_probe_8080 :: "string \<Rightarrow> string \<Rightarrow> action list" where
  "both_probe_8080 url1 url2 =
     [Arrive (Post (Some url1)) (env_ok ''s1''), Resume 0 (env_ok ''s1''),
      Arrive (Post (Some url2)) (env_ok ''s2''), Resume 1 (env_ok ''s2'')]"

text \<open>
  Every entry of the table is stored under the \<open>sessionId\<close> of its session, as
  \<open>activeSessions.set(sessionId, {sessionId, ...})\<close> does.
\<close>

definition keyed :: "registry \<Rightarrow> bool" where
  "keyed reg = list_all (\<lambda>(k, s). sessionId s = k) reg"

text \<open>
  The ids in the reply of the list handler.
\<close>

definition listed_ids :: "registry \<Rightarrow> sid list" where
  "listed_ids reg =
     (case list_request reg of
        (_, _, Reply (Response _ (Sessions sms))) \<Rightarrow> map sum_sessionId sms
      | _ \<Rightarrow> [])"

text \<open>
  An id enters the table only when a creation handler that drew it from \<open>uuidv4\<close> is
  resumed with its port. \<open>draws k a\<close>: the action is a creation request that passes
  validation and draws the id \<open>k\<close>. \<open>port_pending k s\<close>: some creation handler that drew
  \<open>k\<close> is waiting for its port. \<open>absent k s\<close>: \<open>k\<close> is not a key and no such handler waits.
\<close>

fun draws :: "sid \<Rightarrow> action \<Rightarrow> bool" where
  "draws k (Arrive (Post body_repoUrl) e) = (truthy body_repoUrl \<and> uuidv4 e = k)"
| "draws k (Arrive (Delete sId) e) = False"
| "draws k (Arrive GetList e) = False"
| "draws k (Resume i e) = False"
| "draws k (Fire i pe) = False"

fun awaits_port :: "sid \<Rightarrow> slot \<Rightarrow> bool" where
  "awaits_port k (Pending c (AfterPort sId url)) = (sId = k)"
| "awaits_port k (Pending c kont) = False"
| "awaits_port k (Finished r) = False"
| "awaits_port k Dropped = False"

definition port_pending :: "sid \<Rightarrow> system \<Rightarrow> bool" where
  "port_pending k s = list_ex (awaits_port k) (slots s)"

definition absent :: "sid \<Rightarrow> system \<Rightarrow> bool" where
  "absent k s = (Map_get (sessions s) k = None \<and> \<not> port_pending k s)"

text \<open>
  A session is created and runs; a deletion request for it arrives, and
  \<open>container.stop\<close> fails. The deletion handler then waits for \<open>fs.rmdir\<close>.
\<close>

definition create_then_delete :: "action list" where
  "create_then_delete =
     [Arrive (Post (Some ''X'')) (env_ok ''s1''), Resume 0 (env_ok ''s1''),
      Resume 0 (env_ok ''s1''), Resume 0 (env_ok ''s1''),
      Arrive (Delete ''s1'') (env_ok ''s0''),
      Resume 1 ((env_ok ''s0'')\<lparr>container_stop := Inl ''no such container''\<rparr>)]"

text \<open>What follows it: a list request and the creation of another session.\<close>

definition list_and_create :: "action list" where
  "list_and_create =
     [Arrive GetList (env_ok ''s0''),
      Arrive (Post (Some ''X'')) (env_ok ''s2''), Resume 3 (env_ok ''s2'')]"

text \<open>A deletion request that arrives while the session is still being cloned.\<close>

definition delete_while_cloning :: "action list" where
  "delete_while_cloning =
     [Arrive (Post (Some ''X'')) (env_ok ''s1''), Resume 0 (env_ok ''s1''),
      Arrive (Delete ''s1'') (env_ok ''s0'')]"


text \<open>
  Probe environments, the container running in each. In \<open>never_answers\<close> every request
  is answered with 503, in \<open>third_answers\<close> the third one with 200, each request having
  one outcome that arrives before the next timer fires. In \<open>reset_after_200\<close> the first
  request is answered with 200 and its connection is reset afterwards; the timer then
  fires and the second request is answered with 200. In \<open>reset_after_503\<close> the first
  request is answered with 503 and reset, and both timers fire. In \<open>always_reset\<close>
  every request is answered with 503 and reset, each request delivering both events
  before the next timer fires.
\<close>

definition one_by_one :: "nat list \<Rightarrow> delivery list" where
  "one_by_one ks = concat (map (\<lambda>k. [Deliver k, TimerDue]) ks)"

definition never_answers :: probe_env where
  "never_answers =
     \<lparr>inspect = Inr ''running'', container_logs = Inr [],
      http_get = (\<lambda>k. Answered 503),
      deliveries = one_by_one [0, 1, 2, 3, 4, 5, 6, 7, 8, 9]\<rparr>"

definition third_answers :: probe_env where
  "third_answers =
     \<lparr>inspect = Inr ''running'', container_logs = Inr [],
      http_get = (\<lambda>k. if k = 2 then Answered 200 else Failed),
      deliveries = one_by_one [0, 1, 2, 3, 4, 5, 6, 7, 8, 9]\<rparr>"

definition reset_after_200 :: probe_env where
  "reset_after_200 =
     \<lparr>inspect = Inr ''running'', container_logs = Inr [],
      http_get = (\<lambda>k. if k = 0 then AnsweredThenFailed 200 else Answered 200),
      deliveries = [Deliver 0, Deliver 0, TimerDue, Deliver 1]\<rparr>"

definition reset_after_503 :: probe_env where
  "reset_after_503 =
     \<lparr>inspect = Inr ''running'', container_logs = Inr [],
      http_get = (\<lambda>k. AnsweredThenFailed 503),
      deliveries = [Deliver 0, Deliver 0, TimerDue, TimerDue]\<rparr>"

definition always_reset :: probe_env where
  "always_reset =
     \<lparr>inspect = Inr ''running'', container_logs = Inr [],
      http_get = (\<lambda>k. AnsweredThenFailed 503),
      deliveries =
        concat (map (\<lambda>k. [Deliver k, Deliver k, TimerDue]) [0, 1, 2, 3, 4, 5, 6, 7, 8, 9])\<rparr>"

text \<open>The table in which session \<open>s1\<close> runs.\<close>

definition running1 :: registry where
  "running1 = [(''s1'', \<lparr>sessionId = ''s1'', repoUrl = ''X'', port = 8080, status = Running,
                 containerId = Some ''c-s1'', sessionDir = None\<rparr>)]"

text \<open>
  Session \<open>s1\<close> is created and runs on port 8080; a second creation request arrives
  and its probe finds the port in use.
\<close>

definition second_create_port_busy :: "action list" where
  "second_create_port_busy =
     [Arrive (Post (Some ''X'')) (env_ok ''s1''), Resume 0 (env_ok ''s1''),
      Resume 0 (env_ok ''s1''), Resume 0 (env_ok ''s1''),
      Arrive (Post (Some ''Y'')) (env_ok ''s2''),
      Resume 1 ((env_ok ''s2'')\<lparr>listen := port_in_use\<rparr>)]"


text \<open>
  The invariant of a poll: every request sent is counted in the trace, and requests
  sent and timers pending together never exceed the number of \<open>retry\<close> calls that
  scheduled a timer, plus one.
\<close>

definition poll_inv :: "nat \<Rightarrow> poll \<Rightarrow> bool" where
  "poll_inv p st \<longleftrightarrow>
     count_list (trace st) (HttpGet p) = length (in_flight st) \<and>
     length (in_flight st) + due st \<le> min (attempts st) (maxAttempts - 1) + 1"

lemmas handler_defs =
  handle_def post_request_def delete_request_def list_request_def catch_block_def
  cleanup_match_def truthy_def slot_of_def survives_def findAvailablePort_def
  containerConfig_def
  Map_get_def Map_set_def Map_delete_def Map_keys_def Map_values_def AList.delete_eq
  path_join_def

lemmas example_defs =
  run_def exec_def init_def env_ok_def port_in_use_def in_use_by_callback_def
  no_port_by_callback_def

section \<open>Properties\<close>

subsection \<open>The port allocator\<close>

text \<open>
  If a failed bind were reported to the callback, the allocator would do what its
  code reads: return the preferred port when it can be bound, otherwise the port the
  system assigns for port 0, and reject when that fails as well.
\<close>

lemma findAvailablePort_by_callback:
  "(lsn startPort = Listening p \<longrightarrow> findAvailablePort lsn startPort = Resolved p) \<and>
   (lsn startPort = CallbackError err \<and> lsn 0 = Listening p \<longrightarrow>
      findAvailablePort lsn startPort = Resolved p) \<and>
   (lsn startPort = CallbackError err \<and> lsn 0 = CallbackError err' \<longrightarrow>
      findAvailablePort lsn startPort = Rejected err')"
  by (simp add: findAvailablePort_def)

lemma findAvailablePort_by_callback_examples:
  "findAvailablePort (listen (env_ok u)) 8080 = Resolved 8080"
  "findAvailablePort in_use_by_callback 8080 = Resolved 49152"
  "findAvailablePort no_port_by_callback 8080 = Rejected ''EMFILE''"
  by (simp_all add: findAvailablePort_def env_ok_def in_use_by_callback_def
      no_port_by_callback_def)

lemma findAvailablePort_error_event:
  "lsn startPort = ErrorEvent ex \<Longrightarrow> findAvailablePort lsn startPort = Uncaught ex"
  by (simp add: findAvailablePort_def)

text \<open>
  C4. The claim that the allocator falls back to an ephemeral port when the preferred
  port is in use does not hold of the code: the failed bind is an \<open>error\<close> event, the
  callback is not run, the promise is never settled and the exception is uncaught. In
  the schedule \<open>second_create_port_busy\<close> session \<open>s1\<close> runs on port 8080; the probe of
  the next creation finds the port in use, the request gets no reply and the process
  exits.
\<close>

theorem findAvailablePort_no_fallback:
  "findAvailablePort port_in_use 8080 = Uncaught ''EADDRINUSE'' \<and>
   slots (run ContainerClone second_create_port_busy init) ! 1 = Dropped \<and>
   alive (run ContainerClone second_create_port_busy init) = False"
  by (simp add: second_create_port_busy_def example_defs handler_defs)

subsection \<open>Validation and unknown ids\<close>

text \<open>
  C5. A creation request whose \<open>repoUrl\<close> is missing or the empty string is answered
  with status 400 in its first segment: the table, the armed probes and the other
  slots are unchanged, and the request's slot holds the reply, so that no call of the
  port allocator (nor any other call) is pending for it.
\<close>

theorem post_empty_repoUrl_rejected:
  assumes "body_repoUrl = None \<or> body_repoUrl = Some []" "alive s"
  shows "post_request e body_repoUrl reg =
           (reg, [], Reply (Response 400 (Error ''Repository URL is required''))) \<and>
         exec v (Arrive (Post body_repoUrl) e) s =
           s\<lparr>slots := slots s @ [Finished (Response 400 (Error ''Repository URL is required''))]\<rparr>"
  using assms
  by (auto simp: exec_def post_request_def handle_def truthy_def slot_of_def survives_def)

theorem post_empty_repoUrl_rejected_witness:
  "(Some [] = None \<or> Some [] = Some ([] :: string)) \<and> alive init \<and>
   post_request (env_ok ''s2'') (Some [])
       (sessions (run ContainerClone
          [Arrive (Post (Some ''X'')) (env_ok ''s1''), Resume 0 (env_ok ''s1'')] init)) =
     ([(''s1'', \<lparr>sessionId = ''s1'', repoUrl = ''X'', port = 8080, status = Starting,
                containerId = None, sessionDir = None\<rparr>)], [],
      Reply (Response 400 (Error ''Repository URL is required''))) \<and>
   exec ContainerClone (Arrive (Post (Some [])) (env_ok ''s2'')) init =
     init\<lparr>slots := [Finished (Response 400 (Error ''Repository URL is required''))]\<rparr>"
proof -
  let ?reg = "sessions (run ContainerClone
          [Arrive (Post (Some ''X'')) (env_ok ''s1''), Resume 0 (env_ok ''s1'')] init)"
  have r: "?reg = [(''s1'', \<lparr>sessionId = ''s1'', repoUrl = ''X'', port = 8080,
      status = Starting, containerId = None, sessionDir = None\<rparr>)]"
    by (simp add: example_defs handler_defs)
  have h: "Some [] = None \<or> Some [] = Some ([] :: string)" by simp
  have a: "alive init" by (simp add: init_def)
  from post_empty_repoUrl_rejected [OF h a, of "env_ok ''s2''" ?reg ContainerClone] r a
  show ?thesis by (simp add: init_def)
qed

text \<open>
  C9. A deletion request for an id that is not a key of the table is answered with
  status 404 in its first segment: no call (neither \<open>container.stop\<close> nor \<open>fs.rmdir\<close>) is
  issued, and the table, the armed probes and the other slots are unchanged.
\<close>

theorem delete_unknown_id:
  assumes "Map_get (sessions s) sId = None" "alive s"
  shows "delete_request sId (sessions s) =
           (sessions s, [], Reply (Response 404 (Error ''Session not found''))) \<and>
         exec v (Arrive (Delete sId) e) s =
           s\<lparr>slots := slots s @ [Finished (Response 404 (Error ''Session not found''))]\<rparr>"
  using assms by (simp add: exec_def delete_request_def handle_def slot_of_def survives_def)

theorem delete_unknown_id_witness:
  "Map_get (sessions (run HostClone
      [Arrive (Post (Some ''X'')) (env_ok ''s1''), Resume 0 (env_ok ''s1'')] init)) ''s9'' = None \<and>
   alive (run HostClone
      [Arrive (Post (Some ''X'')) (env_ok ''s1''), Resume 0 (env_ok ''s1'')] init) \<and>
   sessions (exec HostClone (Arrive (Delete ''s9'') (env_ok ''s0''))
     (run HostClone [Arrive (Post (Some ''X'')) (env_ok ''s1''), Resume 0 (env_ok ''s1'')] init)) =
     [(''s1'', \<lparr>sessionId = ''s1'', repoUrl = ''X'', port = 8080, status = Cloning,
                containerId = None, sessionDir = Some ''/app/repos/s1''\<rparr>)] \<and>
   slots (exec HostClone (Arrive (Delete ''s9'') (env_ok ''s0''))
     (run HostClone [Arrive (Post (Some ''X'')) (env_ok ''s1''), Resume 0 (env_ok ''s1'')] init)) ! 1 =
     Finished (Response 404 (Error ''Session not found''))"
proof -
  let ?s = "run HostClone
      [Arrive (Post (Some ''X'')) (env_ok ''s1''), Resume 0 (env_ok ''s1'')] init"
  have h: "Map_get (sessions ?s) ''s9'' = None"
    by (simp add: example_defs handler_defs)
  have s: "sessions ?s = [(''s1'', \<lparr>sessionId = ''s1'', repoUrl = ''X'', port = 8080,
      status = Cloning, containerId = None, sessionDir = Some ''/app/repos/s1''\<rparr>)]"
    by (simp add: example_defs handler_defs)
  have l: "length (slots ?s) = 1"
    by (simp add: example_defs handler_defs)
  have a: "alive ?s"
    by (simp add: example_defs handler_defs)
  from delete_unknown_id [OF h a, of HostClone "env_ok ''s0''"] h a s l show ?thesis
    by (simp add: nth_append)
qed

subsection \<open>The table\<close>

lemma Map_get_set:
  "Map_get (Map_set k s reg) k' = (if k' = k then Some s else Map_get reg k')"
  by (simp add: Map_get_def Map_set_def update_conv')

lemma Map_get_delete:
  "Map_get (Map_delete k reg) k' = (if k' = k then None else Map_get reg k')"
  by (simp add: Map_get_def Map_delete_def delete_conv')

subsection \<open>Failed creations\<close>

lemma find_cleanup_match:
  "find (cleanup_match reg url) ks = Some x \<Longrightarrow>
     \<exists>ses. Map_get reg x = Some ses \<and> repoUrl ses = url \<and> status ses \<noteq> Running"
  by (auto simp: find_Some_iff cleanup_match_def split: option.splits)

lemma catch_block_cases:
  assumes "catch_block e msg (Some url) reg = (reg', armed, nx)"
  shows "armed = [] \<and>
    ((reg' = reg \<and> nx = Reply (create_failed msg)) \<or>
     (\<exists>x ses. find (cleanup_match reg url) (Map_keys reg) = Some x \<and> x \<noteq> [] \<and>
        Map_get reg x = Some ses \<and> repoUrl ses = url \<and> status ses \<noteq> Running \<and>
        reg' = Map_delete x reg \<and>
        nx = Await (Rmdir (Some (path_join (REPOS_DIR e) x))) (AfterCleanup msg)))"
  using assms
  by (auto simp: catch_block_def truthy_def split: if_splits option.splits
      dest: find_cleanup_match)

lemma failed_resume_catch:
  assumes "request_url k = Some url" "resume v e k reg = (reg', armed, nx)" "failing nx"
  shows "\<exists>msg tm. catch_block e msg (Some url) reg = (reg', tm, nx)"
  using assms
  by (cases k; cases v) (auto simp: Let_def split: sum.splits port_result.splits option.splits prod.splits)

text \<open>
  C10. When a segment of the creation handler fails, the table is either left as it
  was, or loses exactly the first key, in insertion order, whose session has the
  request's \<open>repoUrl\<close> and a status other than \<open>running\<close>; the key is found by that
  search, not by the request's own id. Every other key keeps its session; in
  particular every session that is \<open>running\<close> or has another \<open>repoUrl\<close> is unchanged.
\<close>

theorem failed_create_frame:
  assumes "request_url k = Some url" "resume v e k reg = (reg', armed, nx)" "failing nx"
  shows "(reg' = reg \<or>
          (\<exists>x ses. find (cleanup_match reg url) (Map_keys reg) = Some x \<and>
             Map_get reg x = Some ses \<and> repoUrl ses = url \<and> status ses \<noteq> Running \<and>
             reg' = Map_delete x reg)) \<and>
         (\<exists>x. \<forall>y. y \<noteq> x \<longrightarrow> Map_get reg' y = Map_get reg y) \<and>
         (\<forall>y ses. Map_get reg y = Some ses \<and> (status ses = Running \<or> repoUrl ses \<noteq> url) \<longrightarrow>
            Map_get reg' y = Some ses)"
proof -
  from failed_resume_catch [OF assms] obtain msg tm
    where c: "catch_block e msg (Some url) reg = (reg', tm, nx)" by blast
  from catch_block_cases [OF c]
  consider "reg' = reg"
    | x ses where "find (cleanup_match reg url) (Map_keys reg) = Some x"
        "Map_get reg x = Some ses" "repoUrl ses = url" "status ses \<noteq> Running"
        "reg' = Map_delete x reg"
    by blast
  then show ?thesis
  proof cases
    case 1
    then show ?thesis by simp
  next
    case 2
    then show ?thesis by (auto simp: Map_get_delete)
  qed
qed

theorem failed_create_frame_witness:
  "request_url (AfterCreate ''s2'' ''X'' 49153) = Some ''X'' \<and>
   resume ContainerClone ((env_ok ''s2'')\<lparr>createContainer := Inl ''boom''\<rparr>)
     (AfterCreate ''s2'' ''X'' 49153) reg3 =
     ([reg3 ! 0, reg3 ! 2], [],
      Await (Rmdir (Some ''/app/repos/s1'')) (AfterCleanup ''boom'')) \<and>
   failing (Await (Rmdir (Some ''/app/repos/s1'')) (AfterCleanup ''boom'')) \<and>
   Map_get [reg3 ! 0, reg3 ! 2] ''s0'' = Some (snd (reg3 ! 0)) \<and>
   Map_get [reg3 ! 0, reg3 ! 2] ''s2'' = Map_get reg3 ''s2''"
proof -
  let ?e = "(env_ok ''s2'')\<lparr>createContainer := Inl ''boom''\<rparr>"
  let ?nx = "Await (Rmdir (Some ''/app/repos/s1'')) (AfterCleanup ''boom'')"
  have h1: "request_url (AfterCreate ''s2'' ''X'' 49153) = Some ''X''" by simp
  have h2: "resume ContainerClone ?e (AfterCreate ''s2'' ''X'' 49153) reg3 =
      ([reg3 ! 0, reg3 ! 2], [], ?nx)"
    by (simp add: reg3_def example_defs handler_defs)
  have h3: "failing ?nx" by simp
  have g: "Map_get reg3 ''s0'' = Some (snd (reg3 ! 0)) \<and> status (snd (reg3 ! 0)) = Running"
    by (simp add: reg3_def Map_get_def)
  from failed_create_frame [OF h1 h2 h3] g
  have "Map_get [reg3 ! 0, reg3 ! 2] ''s0'' = Some (snd (reg3 ! 0))" by blast
  moreover have "Map_get [reg3 ! 0, reg3 ! 2] ''s2'' = Map_get reg3 ''s2''"
    by (simp add: reg3_def Map_get_def)
  ultimately show ?thesis using h1 h2 h3 by blast
qed

text \<open>
  C2. The claim that a failed creation never leaves its own id in the table does not
  hold of the code: in the schedule \<open>same_repo_second_fails\<close> the request for session
  \<open>s2\<close> fails in \<open>docker.createContainer\<close> and is answered with 500, but the \<open>catch\<close> block
  removes session \<open>s1\<close>, the first one found for the repository, and \<open>s2\<close> stays in the
  table.
\<close>

theorem failed_create_keeps_own_entry:
  "slots (run ContainerClone same_repo_second_fails init) ! 1 =
     Finished (Response 500 (Error ''Failed to create dev server: boom'')) \<and>
   sessions (run ContainerClone same_repo_second_fails init) =
     [(''s2'', \<lparr>sessionId = ''s2'', repoUrl = ''X'', port = 8080, status = Starting,
                containerId = None, sessionDir = None\<rparr>)]"
  by (simp add: same_repo_second_fails_def example_defs handler_defs create_failed_def)

subsection \<open>Ports\<close>

lemma update_absent: "k \<notin> fst ` set reg \<Longrightarrow> AList.update k s reg = reg @ [(k, s)]"
  by (induction reg) auto

lemma set_update_subset: "set (AList.update k s reg) \<subseteq> insert (k, s) (set reg)"
  by (induction reg) auto

lemma handle_registry:
  "handle e r reg = (reg', armed, nx) \<Longrightarrow> reg' = reg"
  by (auto simp: handle_def post_request_def delete_request_def list_request_def
      split: request.splits if_splits option.splits)







subsection \<open>No deduplication\<close>

text \<open>
  C7, as the code has it. A creation request with a non-empty \<open>repoUrl\<close> calls the port
  allocator under a newly generated id, whatever the table holds; when the allocator
  returns a port and the id is not yet a key, a new entry with that id, the request's
  \<open>repoUrl\<close> and that port is appended to the table and all entries present are kept,
  also when a session for the same \<open>repoUrl\<close> is present in any state. The ports of two
  such sessions are what the allocator returned and need not differ.
\<close>

theorem create_not_deduplicated:
  assumes "truthy body_repoUrl" "findAvailablePort (listen e') 8080 = Resolved p"
    "uuidv4 e \<notin> set (Map_keys reg')"
  shows "post_request e body_repoUrl reg =
           (reg, [], Await (FindAvailablePort 8080) (AfterPort (uuidv4 e) (the body_repoUrl))) \<and>
         (\<exists>ses c k.
            resume v e' (AfterPort (uuidv4 e) (the body_repoUrl)) reg' =
              (reg' @ [(uuidv4 e, ses)], [], Await c k) \<and>
            sessionId ses = uuidv4 e \<and> repoUrl ses = the body_repoUrl \<and> port ses = p \<and>
            status ses = (case v of HostClone \<Rightarrow> Cloning | ContainerClone \<Rightarrow> Starting) \<and>
            containerId ses = None)"
  using assms
  by (cases v) (auto simp: post_request_def Map_set_def Map_keys_def update_absent)

theorem create_not_deduplicated_witness:
  "truthy (Some ''X'') \<and>
   findAvailablePort (listen (env_ok ''s7'')) 8080 = Resolved 8080 \<and>
   uuidv4 (env_ok ''s7'') \<notin> set (Map_keys reg3) \<and>
   post_request (env_ok ''s7'') (Some ''X'') reg3 =
     (reg3, [], Await (FindAvailablePort 8080) (AfterPort ''s7'' ''X'')) \<and>
   (\<exists>ses c k. resume ContainerClone (env_ok ''s7'') (AfterPort ''s7'' ''X'') reg3 =
      (reg3 @ [(''s7'', ses)], [], Await c k) \<and>
      sessionId ses = ''s7'' \<and> repoUrl ses = ''X'' \<and> port ses = 8080 \<and>
      status ses = Starting \<and> containerId ses = None)"
proof -
  have h1: "truthy (Some ''X'')" by (simp add: truthy_def)
  have h2: "findAvailablePort (listen (env_ok ''s7'')) 8080 = Resolved 8080"
    by (simp add: env_ok_def findAvailablePort_def)
  have h3: "uuidv4 (env_ok ''s7'') \<notin> set (Map_keys reg3)"
    by (simp add: env_ok_def reg3_def Map_keys_def)
  have u: "uuidv4 (env_ok ''s7'') = ''s7''" by (simp add: env_ok_def)
  from create_not_deduplicated [OF h1 h2 h3, of reg3 ContainerClone]
  show ?thesis using h1 h2 h3 by (simp add: u)
qed

text \<open>
  The claim as stated fails in its last part: two creations for the same repository
  that interleave get two ids and the same port.
\<close>

theorem same_repo_same_port_counterexample:
  "sessions (run ContainerClone (both_probe_8080 ''X'' ''X'') init) =
     [(''s1'', \<lparr>sessionId = ''s1'', repoUrl = ''X'', port = 8080, status = Starting,
                containerId = None, sessionDir = None\<rparr>),
      (''s2'', \<lparr>sessionId = ''s2'', repoUrl = ''X'', port = 8080, status = Starting,
                containerId = None, sessionDir = None\<rparr>)]"
  by (simp add: both_probe_8080_def example_defs handler_defs)

subsection \<open>Deleting a session\<close>

lemma keyed_get: "keyed reg \<Longrightarrow> Map_get reg k = Some s \<Longrightarrow> sessionId s = k"
  by (auto simp: keyed_def Map_get_def list_all_iff dest: map_of_SomeD)

lemma keyed_set: "keyed reg \<Longrightarrow> sessionId s = k \<Longrightarrow> keyed (Map_set k s reg)"
  using set_update_subset [of k s reg]
  by (auto simp: keyed_def Map_set_def list_all_iff)

lemma keyed_delete: "keyed reg \<Longrightarrow> keyed (Map_delete k reg)"
  by (auto simp: keyed_def Map_delete_def AList.delete_eq list_all_iff)

lemma keyed_catch:
  "keyed reg \<Longrightarrow> catch_block e msg (Some url) reg = (reg', armed, nx) \<Longrightarrow> keyed reg'"
  by (auto dest!: catch_block_cases simp: keyed_delete)

lemma keyed_resume:
  assumes "keyed reg" "resume v e k reg = (reg', armed, nx)"
  shows "keyed reg'"
  using assms
  by (cases k; cases v)
     (auto simp: Let_def keyed_delete keyed_set keyed_get
       split: sum.splits port_result.splits option.splits prod.splits dest: keyed_catch)

lemma keyed_step: "keyed (sessions s) \<Longrightarrow> keyed (sessions (step v a s))"
proof (cases a)
  case (Arrive r e)
  assume "keyed (sessions s)"
  then show ?thesis using Arrive by (auto split: prod.splits dest: handle_registry)
next
  case (Resume i e)
  assume "keyed (sessions s)"
  then show ?thesis using Resume
    by (auto split: prod.splits slot.splits dest: keyed_resume)
next
  case (Fire i pe)
  assume "keyed (sessions s)"
  then show ?thesis using Fire by simp
qed

lemma keyed_exec: "keyed (sessions s) \<Longrightarrow> keyed (sessions (exec v a s))"
  by (simp add: exec_def keyed_step)

lemma keyed_run: "keyed (sessions s) \<Longrightarrow> keyed (sessions (run v acts s))"
proof (induction acts arbitrary: s)
  case Nil
  then show ?case by (simp add: run_def)
next
  case (Cons a acts)
  from Cons.IH [OF keyed_exec [OF Cons.prems]] show ?case by (simp add: run_def)
qed

lemma keyed_reachable: "keyed (sessions (run v acts init))"
  by (rule keyed_run) (simp add: keyed_def init_def)

lemma absent_catch:
  "Map_get reg k = None \<Longrightarrow> catch_block e msg (Some url) reg = (reg', armed, nx) \<Longrightarrow>
   Map_get reg' k = None \<and> \<not> awaits_port k (slot_of nx)"
  by (auto dest!: catch_block_cases simp: Map_get_delete slot_of_def)

lemma absent_resume:
  assumes "Map_get reg k = None" "\<not> awaits_port k (Pending c kont)"
    "resume v e kont reg = (reg', armed, nx)"
  shows "Map_get reg' k = None \<and> \<not> awaits_port k (slot_of nx)"
  using assms
  by (cases kont; cases v)
     (auto simp: Let_def Map_get_set Map_get_delete slot_of_def
       split: sum.splits port_result.splits option.splits prod.splits dest: absent_catch)

lemma handle_awaits_port:
  "handle e r reg = (reg', armed, nx) \<Longrightarrow> awaits_port k (slot_of nx) \<Longrightarrow> draws k (Arrive r e)"
  by (cases r)
     (auto simp: handle_def post_request_def delete_request_def list_request_def slot_of_def
       split: if_splits option.splits)

lemma absent_step:
  assumes "absent k s" "\<not> draws k a"
  shows "absent k (step v a s)"
proof (cases a)
  case (Arrive r e)
  obtain reg' armed nx where h: "handle e r (sessions s) = (reg', armed, nx)"
    by (cases "handle e r (sessions s)") auto
  from h have "reg' = sessions s" by (rule handle_registry)
  moreover have "\<not> awaits_port k (slot_of nx)"
    using handle_awaits_port [OF h] assms(2) Arrive by blast
  ultimately show ?thesis using assms(1) Arrive h
    by (simp add: absent_def port_pending_def)
next
  case (Resume i e)
  show ?thesis
  proof (cases "i < length (slots s)")
    case False
    then show ?thesis using Resume assms by simp
  next
    case True
    show ?thesis
    proof (cases "slots s ! i")
      case (Finished r)
      then show ?thesis using Resume True assms by simp
    next
      case Dropped
      then show ?thesis using Resume True assms by simp
    next
      case (Pending c kont)
      obtain reg' armed nx where r: "resume v e kont (sessions s) = (reg', armed, nx)"
        by (cases "resume v e kont (sessions s)") auto
      have "\<not> awaits_port k (Pending c kont)"
        using assms(1) True Pending
        by (auto simp: absent_def port_pending_def list_ex_iff in_set_conv_nth)
      from absent_resume [OF _ this r] assms(1)
      have n: "Map_get reg' k = None" "\<not> awaits_port k (slot_of nx)"
        by (simp_all add: absent_def)
      have "\<not> list_ex (awaits_port k) ((slots s)[i := slot_of nx])"
        using n(2) assms(1) set_update_subset_insert [of "slots s" i "slot_of nx"]
        by (auto simp: absent_def port_pending_def list_ex_iff)
      then show ?thesis using Resume True Pending r n(1)
        by (simp add: absent_def port_pending_def)
    qed
  qed
next
  case (Fire i pe)
  then show ?thesis using assms by (simp add: absent_def port_pending_def)
qed

lemma absent_exec: "absent k s \<Longrightarrow> \<not> draws k a \<Longrightarrow> absent k (exec v a s)"
  by (simp add: exec_def absent_step)

lemma absent_run:
  "absent k s \<Longrightarrow> list_all (\<lambda>a. \<not> draws k a) acts \<Longrightarrow> absent k (run v acts s)"
proof (induction acts arbitrary: s)
  case Nil
  then show ?case by (simp add: run_def)
next
  case (Cons a acts)
  from Cons.prems have "absent k (exec v a s)" "list_all (\<lambda>a. \<not> draws k a) acts"
    by (simp_all add: absent_exec)
  from Cons.IH [OF this] show ?case by (simp add: run_def)
qed

lemma not_listed:
  assumes k: "keyed reg" and n: "Map_get reg k = None" and l: "k \<in> set (listed_ids reg)"
  shows False
proof -
  from l obtain a b where ab: "(a, b) \<in> set reg" "sessionId b = k"
    by (auto simp: listed_ids_def list_request_def Map_values_def summarise_def)
  with k have "a = k" by (auto simp: keyed_def list_all_iff)
  with ab have "k \<in> fst ` set reg" by force
  with n show False by (simp add: Map_get_def map_of_eq_None_iff)
qed

lemma last_segment_absent:
  assumes "i < length (slots s)" "slots s ! i = Pending c (AfterRmdir sId)"
    "\<not> port_pending sId s" "alive s"
  shows "absent sId (exec v (Resume i e) s)"
proof -
  have "\<not> list_ex (awaits_port sId) ((slots s)[i := Finished r])" for r
    using assms(3) set_update_subset_insert [of "slots s" i "Finished r"]
    by (auto simp: port_pending_def list_ex_iff)
  then show ?thesis using assms(1,2,4)
    by (simp add: exec_def absent_def port_pending_def Map_get_delete slot_of_def)
qed

text \<open>
  C3, as the code has it. For an id that is a key of the table, the deletion handler
  calls \<open>container.stop\<close> when the session has a non-empty \<open>containerId\<close> and goes on to
  \<open>fs.rmdir\<close> whatever the outcome of the stop is; when the session has no container id
  yet it calls \<open>fs.rmdir\<close> at once. Whatever the outcome of \<open>fs.rmdir\<close>, and whatever the
  table has become in the meantime, it then deletes the key and replies 200. From then
  on the id is not a key and is not in the reply of the list handler, in every later
  state, provided no creation request that drew the same id is waiting for its port or
  arrives later. (Every reachable table is \<open>keyed\<close>.)
\<close>

theorem delete_known_session:
  assumes "Map_get reg sId = Some ses"
  shows "delete_request sId reg =
           (reg, [],
            if truthy (containerId ses)
            then Await (ContainerStop (the (containerId ses))) (AfterStop sId (sessionDir ses))
            else Await (Rmdir (sessionDir ses)) (AfterRmdir sId)) \<and>
         resume v e (AfterStop sId dir) reg' = (reg', [], Await (Rmdir dir) (AfterRmdir sId)) \<and>
         resume v e' (AfterRmdir sId) reg'' =
           (Map_delete sId reg'', [],
            Reply (Response 200 (Message ''Dev server stopped and cleaned up successfully''))) \<and>
         (alive s \<and> i < length (slots s) \<and> slots s ! i = Pending c (AfterRmdir sId) \<and>
          keyed (sessions s) \<and> \<not> port_pending sId s \<and> list_all (\<lambda>a. \<not> draws sId a) acts \<longrightarrow>
            Map_get (sessions (run v acts (exec v (Resume i e') s))) sId = None \<and>
            sId \<notin> set (listed_ids (sessions (run v acts (exec v (Resume i e') s)))))"
proof -
  have "Map_get (sessions (run v acts (exec v (Resume i e') s))) sId = None \<and>
        sId \<notin> set (listed_ids (sessions (run v acts (exec v (Resume i e') s))))"
    if h: "i < length (slots s)" "slots s ! i = Pending c (AfterRmdir sId)"
      "keyed (sessions s)" "\<not> port_pending sId s" "list_all (\<lambda>a. \<not> draws sId a) acts"
      "alive s"
  proof -
    have "absent sId (run v acts (exec v (Resume i e') s))"
      using last_segment_absent [OF h(1,2,4,6)] h(5) by (rule absent_run)
    moreover have "keyed (sessions (run v acts (exec v (Resume i e') s)))"
      using h(3) by (intro keyed_run keyed_exec)
    ultimately show ?thesis by (auto simp: absent_def dest: not_listed)
  qed
  then show ?thesis using assms by (simp add: delete_request_def)
qed

theorem delete_known_session_witness:
  "Map_get running1 ''s1'' = Some (snd (hd running1)) \<and>
   delete_request ''s1'' running1 =
     (running1, [], Await (ContainerStop ''c-s1'') (AfterStop ''s1'' None)) \<and>
   alive (run ContainerClone create_then_delete init) \<and>
   1 < length (slots (run ContainerClone create_then_delete init)) \<and>
   slots (run ContainerClone create_then_delete init) ! 1 =
     Pending (Rmdir None) (AfterRmdir ''s1'') \<and>
   keyed (sessions (run ContainerClone create_then_delete init)) \<and>
   \<not> port_pending ''s1'' (run ContainerClone create_then_delete init) \<and>
   list_all (\<lambda>a. \<not> draws ''s1'' a) list_and_create \<and>
   sessions (run ContainerClone create_then_delete init) = running1 \<and>
   ''s1'' \<notin> set (listed_ids (sessions (run ContainerClone list_and_create
      (exec ContainerClone (Resume 1 ((env_ok ''s0'')\<lparr>fs_rmdir := Inl ''ENOENT''\<rparr>))
         (run ContainerClone create_then_delete init)))))"
proof -
  let ?s = "run ContainerClone create_then_delete init"
  let ?e = "(env_ok ''s0'')\<lparr>fs_rmdir := Inl ''ENOENT''\<rparr>"
  have h0: "Map_get running1 ''s1'' = Some (snd (hd running1))"
    by (simp add: running1_def Map_get_def)
  have s: "?s = \<lparr>sessions = running1,
      slots = [Finished (Response 200 (Created \<lparr>cr_sessionId = ''s1'', cr_repoUrl = ''X'',
                 cr_port = 8080, cr_status = Running, cr_url = (''http://localhost:'', 8080)\<rparr>)),
               Pending (Rmdir None) (AfterRmdir ''s1'')],
      timers = [Armed ''s1'' 8080 ''c-s1''], console = [], alive = True\<rparr>"
    by (simp add: create_then_delete_def running1_def example_defs handler_defs)
  have h6: "alive ?s" by (simp add: s)
  have h1: "1 < length (slots ?s)" by (simp add: s)
  have h2: "slots ?s ! 1 = Pending (Rmdir None) (AfterRmdir ''s1'')" by (simp add: s)
  have h3: "keyed (sessions ?s)" by (simp add: s keyed_def running1_def)
  have h4: "\<not> port_pending ''s1'' ?s" by (simp add: s port_pending_def)
  have h5: "list_all (\<lambda>a. \<not> draws ''s1'' a) list_and_create"
    by (simp add: list_and_create_def env_ok_def)
  have d: "delete_request ''s1'' running1 =
     (running1, [], Await (ContainerStop ''c-s1'') (AfterStop ''s1'' None))"
    by (simp add: running1_def handler_defs)
  from delete_known_session [OF h0, where v = ContainerClone and e' = ?e and i = 1
      and s = ?s and acts = list_and_create and c = "Rmdir None"]
    h1 h2 h3 h4 h5 h6
  have "''s1'' \<notin> set (listed_ids (sessions (run ContainerClone list_and_create
      (exec ContainerClone (Resume 1 ?e) ?s))))"
    by blast
  with h0 d h1 h2 h3 h4 h5 h6 s show ?thesis by simp
qed

text \<open>
  The claim as stated fails in one step: a session that has no container id yet (here
  one that is still being cloned) is deleted without any call of \<open>container.stop\<close>;
  the first call of the handler is \<open>fs.rmdir\<close>.
\<close>

theorem delete_without_stop_counterexample:
  "Map_get (sessions (run HostClone (butlast delete_while_cloning) init)) ''s1'' =
     Some \<lparr>sessionId = ''s1'', repoUrl = ''X'', port = 8080, status = Cloning,
           containerId = None, sessionDir = Some ''/app/repos/s1''\<rparr> \<and>
   slots (run HostClone delete_while_cloning init) ! 1 =
     Pending (Rmdir (Some ''/app/repos/s1'')) (AfterRmdir ''s1'')"
  by (simp add: delete_while_cloning_def example_defs handler_defs)

subsection \<open>The transition to running\<close>




subsection \<open>The readiness probe\<close>

lemmas poll_defs = run_poll_def check_def retry_def on_response_def maxAttempts_def Let_def

text \<open>
  Whatever the requests do and in whatever order timers fire and events arrive, a poll
  sends at most 10 requests.
\<close>

lemma poll_inv_retry: "poll_inv p st \<Longrightarrow> poll_inv p (retry sId p st)"
  by (auto simp: poll_inv_def retry_def Let_def maxAttempts_def)

lemma poll_inv_on_response: "poll_inv p st \<Longrightarrow> poll_inv p (on_response sId p c st)"
  by (auto simp: on_response_def poll_inv_retry) (simp add: poll_inv_def)

lemma poll_inv_deliver: "poll_inv p st \<Longrightarrow> poll_inv p (deliver get sId p d st)"
proof (cases d)
  case TimerDue
  assume "poll_inv p st"
  then show ?thesis using TimerDue by (auto simp: poll_inv_def check_def)
next
  case (Deliver i)
  assume inv: "poll_inv p st"
  have upd: "poll_inv p (st\<lparr>in_flight := (in_flight st)[i := evs]\<rparr>)" for evs
    using inv by (simp add: poll_inv_def)
  show ?thesis using Deliver inv
    by (auto simp: poll_inv_retry poll_inv_on_response upd split: list.splits http_event.splits)
qed

lemma poll_inv_run: "poll_inv p (run_poll get sId p ds)"
proof -
  have "poll_inv p (foldl (\<lambda>st d. deliver get sId p d st) st ds)" if "poll_inv p st" for st
    using that by (induction ds arbitrary: st) (simp_all add: poll_inv_deliver)
  moreover have "poll_inv p (check get p \<lparr>attempts = 0, due = 0, in_flight = [], trace = []\<rparr>)"
    by (simp add: poll_inv_def check_def maxAttempts_def)
  ultimately show ?thesis by (simp add: run_poll_def)
qed

lemma poll_at_most_ten_requests:
  "count_list (trace (run_poll get sId p ds)) (HttpGet p) \<le> 10"
proof -
  from poll_inv_run [of p get sId ds]
  have "count_list (trace (run_poll get sId p ds)) (HttpGet p) \<le>
      min (attempts (run_poll get sId p ds)) (maxAttempts - 1) + 1"
    unfolding poll_inv_def by linarith
  then show ?thesis by (simp add: maxAttempts_def)
qed

lemma probe_at_most_ten_requests:
  "count_list (probe pe (Armed sId p c)) (HttpGet p) \<le> 10"
  using poll_at_most_ten_requests [of "http_get pe" sId p "deliveries pe"]
  by (auto split: sum.splits)

text \<open>Firing a probe appends to the console only.\<close>

lemma fire_frame:
  "sessions (exec v (Fire i pe) s) = sessions s \<and> slots (exec v (Fire i pe) s) = slots s \<and>
   alive (exec v (Fire i pe) s) = alive s"
  by (simp add: exec_def)

text \<open>
  When every request has one outcome and it arrives before the next timer fires, the
  poll is the one intended: one timer between consecutive requests, the success line
  at the first 200 and nothing after it, the line that the server did not respond
  after the tenth request.
\<close>

lemma poll_single_outcomes:
  "probe third_answers (Armed ''s1'' 8080 ''c-s1'') =
     [Inspect ''c-s1'', HttpGet 8080, SetTimeout 1000, HttpGet 8080, SetTimeout 1000,
      HttpGet 8080, LogResponding ''s1'' 8080]"
  "probe never_answers (Armed ''s1'' 8080 ''c-s1'') =
     Inspect ''c-s1'' # concat (replicate 9 [HttpGet 8080, SetTimeout 1000]) @
     [HttpGet 8080, LogNoResponse ''s1'' 8080 10]"
proof -
  have r9: "replicate 9 x = [x, x, x, x, x, x, x, x, x]" for x :: "probe_event list"
    by (simp add: numeral_eq_Suc)
  show "probe third_answers (Armed ''s1'' 8080 ''c-s1'') =
     [Inspect ''c-s1'', HttpGet 8080, SetTimeout 1000, HttpGet 8080, SetTimeout 1000,
      HttpGet 8080, LogResponding ''s1'' 8080]"
    by (simp add: third_answers_def one_by_one_def poll_defs)
  show "probe never_answers (Armed ''s1'' 8080 ''c-s1'') =
     Inspect ''c-s1'' # concat (replicate 9 [HttpGet 8080, SetTimeout 1000]) @
     [HttpGet 8080, LogNoResponse ''s1'' 8080 10]"
    unfolding r9 by (simp add: never_answers_def one_by_one_def poll_defs)
qed

text \<open>
  C8. The claim that the poll stops at the first answer with status 200, that its
  requests are one second apart and that it gives up once does not hold of the code:
  the response callback and the \<open>error\<close> listener of a request are independent, so
  \<open>retry\<close> also runs when a request that was answered fails afterwards. In
  \<open>reset_after_200\<close> the success line is printed and the poll goes on with another
  timer and another request. In \<open>reset_after_503\<close> one request arms two timers and two
  requests follow with no timer between them. In \<open>always_reset\<close> the counter passes
  the budget and the line that the server did not respond is printed 11 times.
\<close>

theorem poll_goes_on_after_200:
  "probe reset_after_200 (Armed ''s1'' 8080 ''c-s1'') =
     [Inspect ''c-s1'', HttpGet 8080, LogResponding ''s1'' 8080, SetTimeout 1000,
      HttpGet 8080, LogResponding ''s1'' 8080] \<and>
   probe reset_after_503 (Armed ''s1'' 8080 ''c-s1'') =
     [Inspect ''c-s1'', HttpGet 8080, SetTimeout 1000, SetTimeout 1000,
      HttpGet 8080, HttpGet 8080] \<and>
   count_list (probe always_reset (Armed ''s1'' 8080 ''c-s1'')) (LogNoResponse ''s1'' 8080 10) = 11 \<and>
   count_list (probe always_reset (Armed ''s1'' 8080 ''c-s1'')) (HttpGet 8080) = 10"
  by (simp add: reset_after_200_def reset_after_503_def always_reset_def poll_defs)

end
